theory Spec2Isabelle
  imports Main
begin

section \<open>The calendar fetcher of modules/default/calendar/calendarfetcher.js\<close>

subsection \<open>Values, exceptions and the external collaborators\<close>

text \<open>
  The two exceptions that can leave \<open>retrieveCallback\<close>: a JavaScript \<open>TypeError\<close> (a
  property read on \<open>null\<close> or \<open>undefined\<close>) and whatever the iCal parser throws on a body
  it rejects. The source has no \<open>try\<close>/\<open>catch\<close>, so either one ends the callback where it
  is raised.
\<close>

datatype js_error = TypeError | ParserError

text \<open>Instants are Unix milliseconds, the time value of a \<open>Date\<close> or a \<open>moment\<close>.\<close>

type_synonym instant = int

text \<open>
  Modelled from the spec: the type \<open>ICAL.Event\<close> of vendor/ical.js, which
  \<open>filterEvents\<close> wraps around every parsed component and whose properties the callback
  reads (\<open>event.summary\<close>, \<open>event.startDate\<close>, \<open>event.endDate\<close>, \<open>event.fullDayEvent\<close>,
  \<open>event.class\<close>, \<open>event.location\<close>, \<open>event.geo\<close>, \<open>event.description\<close>). Following the
  spec's data model, start and end are absolute instants: the fields hold what
  \<open>event.startDate.toJSDate()\<close> and \<open>event.endDate.toJSDate()\<close> denote. A property the
  component does not carry reads as \<open>undefined\<close>, here \<open>None\<close>.
\<close>

record ical_event =
  ev_summary :: string
  ev_startDate :: instant
  ev_endDate :: instant
  ev_fullDayEvent :: "bool option"
  ev_class :: "string option"
  ev_location :: "string option"
  ev_geo :: "string option"
  ev_description :: "string option"

text \<open>
  The object literal pushed onto \<open>events\<close> (lines 99-108). \<open>moment(d).format("x")\<close> is the
  instant in Unix milliseconds written as decimal digits; the record keeps the number
  those digits denote. The field \<open>class\<close> is named \<open>eclass\<close> here.
\<close>

record CalendarEvent =
  title :: string
  startDate :: instant
  endDate :: instant
  fullDayEvent :: "bool option"
  eclass :: "string option"
  location :: "string option"
  geo :: "string option"
  description :: "string option"

text \<open>
  What the source obtains from code outside the file, taken as parameters:
  \<^item> \<open>ical_parse\<close>: \<open>ical.parse\<close>, \<open>new ICAL.Component\<close>, \<open>getAllSubcomponents('vevent')\<close>
    and the \<open>new ICAL.Event\<close> wrapper, together: the events of a body, or the exception
    thrown on the way;
  \<^item> \<open>startOfDay\<close> and \<open>addDays\<close>: moment's \<open>startOf("day")\<close> and \<open>add(n, "days")\<close>;
  \<^item> \<open>localTZA\<close>: the offset of local time from UTC at an instant, in milliseconds, from
    which \<open>Date.prototype.getHours\<close> and \<open>getMinutes\<close> are computed;
  \<^item> \<open>toNumber\<close>: the numeric value of a string under \<open>-\<close>, \<open>None\<close> when it is \<open>NaN\<close> or
    not a whole number; \<open>dateParse\<close>: the time value of \<open>new Date(string)\<close>, \<open>None\<close> for
    an invalid date.
\<close>

record externals =
  ical_parse :: "string \<Rightarrow> js_error + ical_event list"
  startOfDay :: "instant \<Rightarrow> instant"
  addDays :: "instant \<Rightarrow> int \<Rightarrow> instant"
  localTZA :: "instant \<Rightarrow> int"
  toNumber :: "string \<Rightarrow> int option"
  dateParse :: "string \<Rightarrow> instant option"

text \<open>The constructor's parameters (line 12); \<open>auth\<close> only shapes the request.\<close>

record config =
  url :: string
  reloadInterval :: int
  excludedEvents :: "string list"
  maximumEntries :: int
  maximumNumberOfDays :: int

text \<open>
  The closure's mutable variables (lines 15-21). \<open>reloadTimer\<close> holds the delay of the
  pending timeout, \<open>None\<close> for \<open>null\<close>. \<open>received\<close> counts the calls of
  \<open>eventsReceivedCallback\<close>, the only effect of \<open>broadcastEvents\<close>.
\<close>

record fetcher =
  reloadTimer :: "int option"
  events :: "CalendarEvent list"
  failedRetrievals :: nat
  received :: nat

definition CalendarFetcher :: fetcher where
  "CalendarFetcher = \<lparr>reloadTimer = None, events = [], failedRetrievals = 0, received = 0\<rparr>"

datatype completion = Returned | Threw js_error

subsection \<open>Timer and listener\<close>

definition scheduleTimer :: "int \<Rightarrow> fetcher \<Rightarrow> fetcher" where
  "scheduleTimer interval s = s\<lparr>reloadTimer := Some interval\<rparr>"

definition broadcastEvents :: "fetcher \<Rightarrow> fetcher" where
  "broadcastEvents s = s\<lparr>received := Suc (received s)\<rparr>"

text \<open>
  \<open>fetchCalendar\<close> clears the timer and issues the request; the answer arrives later as
  the arguments of \<open>retrieveCallback\<close>.
\<close>

definition fetchCalendar :: "fetcher \<Rightarrow> fetcher" where
  "fetchCalendar s = s\<lparr>reloadTimer := None\<rparr>"

subsection \<open>Parsing and filtering\<close>

text \<open>
  \<open>parseCalendar\<close> (lines 125-134): a \<open>null\<close> body returns \<open>undefined\<close> (\<open>Inr None\<close>);
  otherwise the parser's events, or its exception.
\<close>

definition parseCalendar :: "externals \<Rightarrow> string option \<Rightarrow> js_error + ical_event list option" where
  "parseCalendar ext icalData =
     (case icalData of
        None \<Rightarrow> Inr None
      | Some d \<Rightarrow> (case ical_parse ext d of Inl e \<Rightarrow> Inl e | Inr vevents \<Rightarrow> Inr (Some vevents)))"

definition future :: "externals \<Rightarrow> config \<Rightarrow> instant \<Rightarrow> instant" where
  "future ext cfg now = addDays ext (startOfDay ext now) (maximumNumberOfDays cfg) - 1000"

text \<open>
  The loop of \<open>filterEvents\<close> (lines 148-172), \<open>goodEvents\<close> as the accumulator. Both
  \<open>moment()\<close> calls of lines 144-145 read the clock of the same synchronous call and are
  the one instant \<open>now\<close>.
\<close>

fun filterLoop :: "instant \<Rightarrow> instant \<Rightarrow> ical_event list \<Rightarrow> ical_event list \<Rightarrow> ical_event list" where
  "filterLoop now fut [] goodEvents = goodEvents"
| "filterLoop now fut (event # vevents) goodEvents =
     (if ev_endDate event < now then filterLoop now fut vevents goodEvents
      else if ev_startDate event > fut then filterLoop now fut vevents goodEvents
      else filterLoop now fut vevents (goodEvents @ [event]))"

definition filterEvents :: "externals \<Rightarrow> config \<Rightarrow> instant \<Rightarrow> ical_event list \<Rightarrow> ical_event list" where
  "filterEvents ext cfg now vevents = filterLoop now (future ext cfg now) vevents []"

subsection \<open>Sorting and truncating\<close>

text \<open>
  A JavaScript number as far as the comparator needs it: \<open>NaN\<close> or a whole number.
  Subtraction with a \<open>NaN\<close> operand is \<open>NaN\<close>.
\<close>

datatype js_number = NaN | Number int

fun js_minus :: "js_number \<Rightarrow> js_number \<Rightarrow> js_number" where
  "js_minus (Number a) (Number b) = Number (a - b)"
| "js_minus _ _ = NaN"

text \<open>
  \<open>event.startDate\<close> is an \<open>ICAL.Time\<close> object: lines 101 and 150 turn it into a date
  with \<open>toJSDate()\<close> before using it. Line 89 subtracts two such objects as they are.
  The object has no numeric value, so as an operand of \<open>-\<close> it is \<open>NaN\<close>, whatever
  instant it stands for.
\<close>

definition timeToNumber :: "instant \<Rightarrow> js_number" where
  "timeToNumber t = NaN"

text \<open>The comparator of line 89.\<close>

definition compareFn :: "ical_event \<Rightarrow> ical_event \<Rightarrow> js_number" where
  "compareFn a b = js_minus (timeToNumber (ev_startDate a)) (timeToNumber (ev_startDate b))"

text \<open>
  \<open>Array.prototype.sort\<close> with a comparator, stable as ECMAScript 2019 requires: an
  element moves behind exactly those it compares greater than. A comparator result of
  \<open>NaN\<close> counts as 0.
\<close>

fun sort_order :: "js_number \<Rightarrow> int" where
  "sort_order NaN = 0"
| "sort_order (Number v) = v"

fun place :: "('a \<Rightarrow> 'a \<Rightarrow> js_number) \<Rightarrow> 'a \<Rightarrow> 'a list \<Rightarrow> 'a list" where
  "place cmp a [] = [a]"
| "place cmp a (b # bs) = (if sort_order (cmp a b) > 0 then b # place cmp a bs else a # b # bs)"

definition array_sort :: "('a \<Rightarrow> 'a \<Rightarrow> js_number) \<Rightarrow> 'a list \<Rightarrow> 'a list" where
  "array_sort cmp xs = foldr (place cmp) xs []"

text \<open>
  \<open>xs.slice(0, end)\<close>: a negative \<open>end\<close> counts from the end of the array.
\<close>

definition slice0 :: "'a list \<Rightarrow> int \<Rightarrow> 'a list" where
  "slice0 xs end_ix =
     (if end_ix < 0 then take (nat (max (int (length xs) + end_ix) 0)) xs
      else take (nat end_ix) xs)"

subsection \<open>The callback\<close>

definition translate :: "ical_event \<Rightarrow> CalendarEvent" where
  "translate event =
     \<lparr>title = ev_summary event,
      startDate = ev_startDate event,
      endDate = ev_endDate event,
      fullDayEvent = ev_fullDayEvent event,
      eclass = ev_class event,
      location = ev_location event,
      geo = ev_geo event,
      description = ev_description event\<rparr>"

definition filteredEvents :: "externals \<Rightarrow> config \<Rightarrow> instant \<Rightarrow> ical_event list \<Rightarrow> ical_event list" where
  "filteredEvents ext cfg now allEvents =
     slice0 (array_sort compareFn (filterEvents ext cfg now allEvents)) (maximumEntries cfg)"

text \<open>
  \<open>retrieveCallback\<close> (lines 65-120). \<open>response\<close> is the status code of the response,
  \<open>None\<close> when there is no response object; \<open>body\<close> is \<open>None\<close> for \<open>null\<close>; \<open>now\<close> is the
  clock read by \<open>filterEvents\<close>. With no response the log statement of lines 67-68 reads
  \<open>response.statusCode\<close> and throws before the counter is touched. After a status of 200
  the counter is reset first (line 82); \<open>allEvents.length\<close> (line 85) throws when
  \<open>parseCalendar\<close> returned \<open>undefined\<close>.
\<close>

definition retrieveCallback ::
  "externals \<Rightarrow> config \<Rightarrow> instant \<Rightarrow> int option \<Rightarrow> string option \<Rightarrow> fetcher \<Rightarrow> completion \<times> fetcher" where
  "retrieveCallback ext cfg now response body s =
     (case response of
        None \<Rightarrow> (Threw TypeError, s)
      | Some statusCode \<Rightarrow>
          if statusCode \<noteq> 200 then
            (if failedRetrievals s < 3
             then (Returned, scheduleTimer 10000 (s\<lparr>failedRetrievals := failedRetrievals s + 1\<rparr>))
             else (Returned, scheduleTimer (reloadInterval cfg) (s\<lparr>failedRetrievals := 0\<rparr>)))
          else
            (let s1 = s\<lparr>failedRetrievals := 0\<rparr> in
             case parseCalendar ext body of
               Inl e \<Rightarrow> (Threw e, s1)
             | Inr None \<Rightarrow> (Threw TypeError, s1)
             | Inr (Some allEvents) \<Rightarrow>
                 if length allEvents > 0 then
                   (let s2 = s1\<lparr>events := map translate (filteredEvents ext cfg now allEvents)\<rparr>
                    in (Returned, scheduleTimer (reloadInterval cfg) (broadcastEvents s2)))
                 else (Returned, scheduleTimer (reloadInterval cfg) s1)))"

subsection \<open>Fetch cycles\<close>

text \<open>
  One cycle is \<open>fetchCalendar\<close> followed by the callback on what the request brought. The
  next cycle starts when the timer armed by the callback fires; a callback that threw has
  armed none, so the cycles end there.
\<close>

record answer =
  a_clock :: instant
  a_response :: "int option"
  a_body :: "string option"

definition cycle :: "externals \<Rightarrow> config \<Rightarrow> answer \<Rightarrow> fetcher \<Rightarrow> completion \<times> fetcher" where
  "cycle ext cfg a s = retrieveCallback ext cfg (a_clock a) (a_response a) (a_body a) (fetchCalendar s)"

fun cycles :: "externals \<Rightarrow> config \<Rightarrow> answer list \<Rightarrow> fetcher \<Rightarrow> fetcher" where
  "cycles ext cfg [] s = s"
| "cycles ext cfg (a # as) s =
     (case cycle ext cfg a s of
        (Returned, s') \<Rightarrow> cycles ext cfg as s'
      | (Threw e, s') \<Rightarrow> s')"

subsection \<open>Full-day detection\<close>

text \<open>
  The argument of \<open>isFullDayEvent\<close> (lines 195-210): \<open>event.start\<close> is a string, a \<open>Date\<close>
  or missing; \<open>event.end\<close> is a \<open>Date\<close> or missing.
\<close>

datatype js_start = StartUndefined | StartString string | StartDate instant

record raw_event =
  ev_start :: js_start
  ev_end :: "instant option"

definition getHours :: "externals \<Rightarrow> instant \<Rightarrow> int" where
  "getHours ext t = ((t + localTZA ext t) div 3600000) mod 24"

definition getMinutes :: "externals \<Rightarrow> instant \<Rightarrow> int" where
  "getMinutes ext t = ((t + localTZA ext t) div 60000) mod 60"

text \<open>
  \<open>event.start.length\<close> throws on a missing start. A \<open>Date\<close> has no \<open>length\<close> and is
  truthy; the empty string is falsy, so \<open>event.start || 0\<close> is then the number 0. A
  missing end is 0.
\<close>

definition isFullDayEvent :: "externals \<Rightarrow> raw_event \<Rightarrow> js_error + bool" where
  "isFullDayEvent ext event =
     (let end_ms = (case ev_end event of None \<Rightarrow> 0 | Some e \<Rightarrow> e) in
      case ev_start event of
        StartUndefined \<Rightarrow> Inl TypeError
      | StartDate t \<Rightarrow>
          Inr (end_ms - t = 24 * 60 * 60 * 1000 \<and> getHours ext t = 0 \<and> getMinutes ext t = 0)
      | StartString str \<Rightarrow>
          if length str = 8 then Inr True
          else
            (let start_num = (if str = [] then Some 0 else toNumber ext str);
                 start_date = (if str = [] then Some 0 else dateParse ext str)
             in case (start_num, start_date) of
                  (Some n, Some t) \<Rightarrow>
                    Inr (end_ms - n = 24 * 60 * 60 * 1000 \<and> getHours ext t = 0 \<and> getMinutes ext t = 0)
                | _ \<Rightarrow> Inr False))"

subsection \<open>The spec's wording of full-day detection\<close>

text \<open>
  The spec's sentence, to be compared with \<open>isFullDayEvent\<close>: an event is full-day if its
  raw start has date-only precision (the eight characters of a date without a time of
  day), or if it lasts exactly 24 hours and starts exactly at local midnight.
\<close>

definition atLocalMidnight :: "externals \<Rightarrow> instant \<Rightarrow> bool" where
  "atLocalMidnight ext t = ((t + localTZA ext t) mod 86400000 = 0)"

definition fullDay_spec :: "externals \<Rightarrow> raw_event \<Rightarrow> bool" where
  "fullDay_spec ext event =
     (case ev_start event of
        StartUndefined \<Rightarrow> False
      | StartString str \<Rightarrow> length str = 8
      | StartDate t \<Rightarrow>
          (case ev_end event of None \<Rightarrow> False | Some e \<Rightarrow> e - t = 86400000 \<and> atLocalMidnight ext t))"

text \<open>An answer that the callback treats as a failed retrieval: a status other than 200.\<close>

definition status_failure :: "answer \<Rightarrow> bool" where
  "status_failure a = (case a_response a of None \<Rightarrow> False | Some statusCode \<Rightarrow> statusCode \<noteq> 200)"

subsection \<open>Concrete inputs\<close>

text \<open>
  Collaborators for evaluating the model: local time is UTC, a day has 86400000
  milliseconds, and the parser answers every body with \<open>parsed\<close>.
\<close>

definition utc_with :: "(js_error + ical_event list) \<Rightarrow> externals" where
  "utc_with parsed =
     \<lparr>ical_parse = (\<lambda>_. parsed),
      startOfDay = (\<lambda>t. t - t mod 86400000),
      addDays = (\<lambda>t n. t + n * 86400000),
      localTZA = (\<lambda>_. 0),
      toNumber = (\<lambda>_. None),
      dateParse = (\<lambda>_. None)\<rparr>"

text \<open>The configuration of the spec's scenario, with one excluded title.\<close>

definition demo_config :: config where
  "demo_config =
     \<lparr>url = ''http://example.org/feed.ics'', reloadInterval = 300000,
      excludedEvents = [''Birthday''], maximumEntries = 2, maximumNumberOfDays = 30\<rparr>"

definition timed :: "string \<Rightarrow> instant \<Rightarrow> instant \<Rightarrow> ical_event" where
  "timed name from till =
     \<lparr>ev_summary = name, ev_startDate = from, ev_endDate = till, ev_fullDayEvent = None,
      ev_class = None, ev_location = None, ev_geo = None, ev_description = None\<rparr>"

text \<open>2016-11-03 12:00:00 UTC.\<close>

definition noon :: instant where
  "noon = 1478174400000"

definition day :: int where
  "day = 86400000"

definition status :: "int \<Rightarrow> answer" where
  "status c = \<lparr>a_clock = 0, a_response = Some c, a_body = Some []\<rparr>"

definition ok :: "instant \<Rightarrow> string option \<Rightarrow> answer" where
  "ok t b = \<lparr>a_clock = t, a_response = Some 200, a_body = b\<rparr>"

section \<open>Properties\<close>

lemmas model_defs =
  retrieveCallback_def parseCalendar_def filteredEvents_def filterEvents_def future_def
  array_sort_def slice0_def compareFn_def timeToNumber_def translate_def scheduleTimer_def
  broadcastEvents_def
  fetchCalendar_def cycle_def CalendarFetcher_def

lemmas fixture_defs = utc_with_def demo_config_def timed_def noon_def day_def status_def ok_def

subsection \<open>The loop, the sort and the slice\<close>

lemma filterLoop_filter:
  "filterLoop now fut vevents goodEvents =
     goodEvents @ filter (\<lambda>e. now \<le> ev_endDate e \<and> ev_startDate e \<le> fut) vevents"
  by (induction vevents arbitrary: goodEvents) auto

text \<open>With the comparator of line 89 no element ever moves.\<close>

lemma place_compareFn: "place compareFn a bs = a # bs"
  by (cases bs) (simp_all add: compareFn_def timeToNumber_def)

lemma length_slice0: "0 \<le> k \<Longrightarrow> int (length (slice0 xs k)) \<le> k"
  by (auto simp: slice0_def)

lemma length_filteredEvents:
  "0 \<le> maximumEntries cfg \<Longrightarrow> int (length (filteredEvents ext cfg now allEvents)) \<le> maximumEntries cfg"
  by (simp add: filteredEvents_def length_slice0)

subsection \<open>The branches of the callback\<close>

lemma callback_status_failure:
  "statusCode \<noteq> 200 \<Longrightarrow>
   retrieveCallback ext cfg now (Some statusCode) body s =
     (if failedRetrievals s < 3
      then (Returned, s\<lparr>failedRetrievals := failedRetrievals s + 1, reloadTimer := Some 10000\<rparr>)
      else (Returned, s\<lparr>failedRetrievals := 0, reloadTimer := Some (reloadInterval cfg)\<rparr>))"
  by (simp add: retrieveCallback_def scheduleTimer_def)

lemma callback_no_response:
  "retrieveCallback ext cfg now None body s = (Threw TypeError, s)"
  by (simp add: retrieveCallback_def)

lemma callback_parsed:
  "parseCalendar ext body = Inr (Some allEvents) \<Longrightarrow>
   retrieveCallback ext cfg now (Some 200) body s =
     (if allEvents \<noteq> []
      then (Returned, s\<lparr>failedRetrievals := 0,
                        events := map translate (filteredEvents ext cfg now allEvents),
                        received := Suc (received s),
                        reloadTimer := Some (reloadInterval cfg)\<rparr>)
      else (Returned, s\<lparr>failedRetrievals := 0, reloadTimer := Some (reloadInterval cfg)\<rparr>))"
  by (simp add: retrieveCallback_def scheduleTimer_def broadcastEvents_def Let_def)

lemma callback_null_body:
  "retrieveCallback ext cfg now (Some 200) None s = (Threw TypeError, s\<lparr>failedRetrievals := 0\<rparr>)"
  by (simp add: retrieveCallback_def parseCalendar_def)

lemma callback_parser_throws:
  "ical_parse ext d = Inl e \<Longrightarrow>
   retrieveCallback ext cfg now (Some 200) (Some d) s = (Threw e, s\<lparr>failedRetrievals := 0\<rparr>)"
  by (simp add: retrieveCallback_def parseCalendar_def)

lemma callback_success_counter:
  "failedRetrievals (snd (retrieveCallback ext cfg now (Some 200) body s)) = 0"
  by (simp add: retrieveCallback_def scheduleTimer_def broadcastEvents_def Let_def
      split: sum.splits option.splits)

lemma callback_counter_bound:
  "failedRetrievals s \<le> 3 \<Longrightarrow> failedRetrievals (snd (retrieveCallback ext cfg now response body s)) \<le> 3"
  by (simp add: retrieveCallback_def scheduleTimer_def broadcastEvents_def Let_def
      split: sum.splits option.splits)

lemma callback_events:
  "events (snd (retrieveCallback ext cfg now response body s)) = events s
   \<or> (\<exists>allEvents. events (snd (retrieveCallback ext cfg now response body s))
         = map translate (filteredEvents ext cfg now allEvents))"
  by (auto simp: retrieveCallback_def scheduleTimer_def broadcastEvents_def Let_def
      split: sum.splits option.splits)

lemma cycle_status_failure:
  "status_failure a \<Longrightarrow>
   cycle ext cfg a s =
     (if failedRetrievals s < 3
      then (Returned, s\<lparr>failedRetrievals := failedRetrievals s + 1, reloadTimer := Some 10000\<rparr>)
      else (Returned, s\<lparr>failedRetrievals := 0, reloadTimer := Some (reloadInterval cfg)\<rparr>))"
  by (cases "a_response a")
    (simp_all add: status_failure_def cycle_def callback_status_failure fetchCalendar_def)

text \<open>A property that every callback preserves holds after any number of cycles.\<close>

lemma cycles_invariant:
  assumes "P s" and "\<And>a s. P s \<Longrightarrow> P (snd (cycle ext cfg a s))"
  shows "P (cycles ext cfg answers s)"
  using assms(1)
proof (induction answers arbitrary: s)
  case Nil
  then show ?case by simp
next
  case (Cons a answers)
  obtain c s' where r: "cycle ext cfg a s = (c, s')" by (cases "cycle ext cfg a s")
  from assms(2)[OF Cons.prems, of a] r have "P s'" by simp
  with Cons.IH r show ?case by (cases c) simp_all
qed

subsection \<open>Hours and minutes of a day\<close>

lemma split_two_levels:
  fixes hh mm r :: int
  assumes "0 \<le> hh" "0 \<le> mm" "0 \<le> r" "r < 60000"
  shows "(hh = 0 \<and> mm = 0) = (3600000 * hh + (60000 * mm + r) < 60000)"
  using assms by auto

lemma hour_minute_zero:
  fixes x :: int
  shows "((x div 3600000) mod 24 = 0 \<and> (x div 60000) mod 60 = 0) = (x mod 86400000 < 60000)"
proof -
  define hh where "hh = x div 3600000 mod 24"
  define mm where "mm = x div 60000 mod 60"
  define r where "r = x mod 60000"
  have "x mod (3600000 * 24) = 3600000 * hh + x mod 3600000"
    unfolding hh_def by (rule zmod_zmult2_eq) simp
  moreover have "x mod (60000 * 60) = 60000 * mm + r"
    unfolding mm_def r_def by (rule zmod_zmult2_eq) simp
  ultimately have z: "x mod 86400000 = 3600000 * hh + (60000 * mm + r)"
    by simp
  have "0 \<le> hh" "0 \<le> mm" "0 \<le> r" "r < 60000"
    by (simp_all add: hh_def mm_def r_def)
  then have "(hh = 0 \<and> mm = 0) = (3600000 * hh + (60000 * mm + r) < 60000)"
    by (rule split_two_levels)
  then show ?thesis
    unfolding z hh_def mm_def .
qed

lemma first_minute:
  "(getHours ext t = 0 \<and> getMinutes ext t = 0) = ((t + localTZA ext t) mod 86400000 < 60000)"
  unfolding getHours_def getMinutes_def by (rule hour_minute_zero)

section \<open>The claims\<close>

subsection \<open>C1: when the held list is replaced and the listener called\<close>

text \<open>
  Claim C1 says that after a successful retrieval the held list is replaced and the
  listener called exactly when the set left by lines 87-91 is non-empty, and that an
  empty such set leaves the held list untouched and the listener silent.
  The guard of line 85 tests the parsed list \<open>allEvents\<close>, not the filtered one. At a
  feed whose only event ended yesterday the filtered set is empty, yet the held list
  (one event before the call) is replaced by the empty list and the listener is called.
\<close>

theorem stale_feed_clears_list:
  "filteredEvents (utc_with (Inr [timed ''Review'' (noon - 2 * day) (noon - day)])) demo_config noon
       [timed ''Review'' (noon - 2 * day) (noon - day)] = []
   \<and> events (snd (retrieveCallback (utc_with (Inr [timed ''Review'' (noon - 2 * day) (noon - day)]))
         demo_config noon (Some 200) (Some ''BEGIN:VCALENDAR'')
         (CalendarFetcher\<lparr>events := [translate (timed ''Lunch'' noon (noon + 3600000))]\<rparr>))) = []
   \<and> received (snd (retrieveCallback (utc_with (Inr [timed ''Review'' (noon - 2 * day) (noon - day)]))
         demo_config noon (Some 200) (Some ''BEGIN:VCALENDAR'')
         (CalendarFetcher\<lparr>events := [translate (timed ''Lunch'' noon (noon + 3600000))]\<rparr>))) = 1"
  by (simp add: model_defs fixture_defs)

text \<open>
  Claim C1, as the code has it: for a response with status 200 whose body the parser
  turns into a list of events, the held list is replaced by the translation of what
  lines 87-91 leave of the parsed list (possibly nothing) and the listener is called once
  exactly when the parsed list is non-empty; when the parsed list is empty the held list
  and the listener are left alone.
\<close>

theorem publish_iff_parsed_nonempty:
  assumes "parseCalendar ext body = Inr (Some allEvents)"
  shows "(allEvents \<noteq> [] \<longrightarrow>
            events (snd (retrieveCallback ext cfg now (Some 200) body s))
              = map translate (filteredEvents ext cfg now allEvents)
          \<and> received (snd (retrieveCallback ext cfg now (Some 200) body s)) = Suc (received s))
       \<and> (allEvents = [] \<longrightarrow>
            events (snd (retrieveCallback ext cfg now (Some 200) body s)) = events s
          \<and> received (snd (retrieveCallback ext cfg now (Some 200) body s)) = received s)"
  by (simp add: callback_parsed [OF assms])

text \<open>
  C1 as the code has it, at a feed with one current event (published, listener called),
  at a feed without events (held list kept) and at a feed of three events, where the
  held list becomes the first two of the feed.
\<close>

theorem publish_iff_parsed_nonempty_witness:
  "events (snd (retrieveCallback (utc_with (Inr [timed ''Lunch'' noon (noon + 3600000)]))
         demo_config noon (Some 200) (Some ''BEGIN:VCALENDAR'') CalendarFetcher))
     = [translate (timed ''Lunch'' noon (noon + 3600000))]
   \<and> received (snd (retrieveCallback (utc_with (Inr [timed ''Lunch'' noon (noon + 3600000)]))
         demo_config noon (Some 200) (Some ''BEGIN:VCALENDAR'') CalendarFetcher)) = 1
   \<and> events (snd (retrieveCallback (utc_with (Inr []))
         demo_config noon (Some 200) (Some ''BEGIN:VCALENDAR'')
         (CalendarFetcher\<lparr>events := [translate (timed ''Lunch'' noon (noon + 3600000))]\<rparr>)))
     = [translate (timed ''Lunch'' noon (noon + 3600000))]
   \<and> events (snd (retrieveCallback
         (utc_with (Inr [timed ''Late'' (noon + 5 * day) (noon + 6 * day),
                         timed ''First'' (noon + day) (noon + 2 * day),
                         timed ''Second'' (noon + day) (noon + 3 * day)]))
         demo_config noon (Some 200) (Some ''BEGIN:VCALENDAR'') CalendarFetcher))
     = [translate (timed ''Late'' (noon + 5 * day) (noon + 6 * day)),
        translate (timed ''First'' (noon + day) (noon + 2 * day))]"
  using publish_iff_parsed_nonempty [where ext = "utc_with (Inr [timed ''Lunch'' noon (noon + 3600000)])"
      and body = "Some ''BEGIN:VCALENDAR''" and allEvents = "[timed ''Lunch'' noon (noon + 3600000)]"
      and cfg = demo_config and now = noon and s = CalendarFetcher]
    publish_iff_parsed_nonempty [where ext = "utc_with (Inr [])" and body = "Some ''BEGIN:VCALENDAR''"
      and allEvents = "[]" and cfg = demo_config and now = noon
      and s = "CalendarFetcher\<lparr>events := [translate (timed ''Lunch'' noon (noon + 3600000))]\<rparr>"]
    publish_iff_parsed_nonempty [where ext =
        "utc_with (Inr [timed ''Late'' (noon + 5 * day) (noon + 6 * day),
                        timed ''First'' (noon + day) (noon + 2 * day),
                        timed ''Second'' (noon + day) (noon + 3 * day)])"
      and body = "Some ''BEGIN:VCALENDAR''"
      and allEvents = "[timed ''Late'' (noon + 5 * day) (noon + 6 * day),
                        timed ''First'' (noon + day) (noon + 2 * day),
                        timed ''Second'' (noon + day) (noon + 3 * day)]"
      and cfg = demo_config and now = noon and s = CalendarFetcher]
  by (simp add: model_defs fixture_defs)

subsection \<open>C2: the exclusion set\<close>

text \<open>
  Claim C2 says that events matching \<open>excludedEvents\<close> are discarded before the time
  window filter and never published. The constructor takes \<open>excludedEvents\<close> and nothing
  reads it. With \<open>''Birthday''\<close> excluded, an event of that title starting tomorrow is
  published.
\<close>

theorem excluded_title_published:
  "events (snd (retrieveCallback (utc_with (Inr [timed ''Birthday'' (noon + day) (noon + 2 * day)]))
         demo_config noon (Some 200) (Some ''BEGIN:VCALENDAR'') CalendarFetcher))
     = [translate (timed ''Birthday'' (noon + day) (noon + 2 * day))]
   \<and> title (translate (timed ''Birthday'' (noon + day) (noon + 2 * day))) \<in> set (excludedEvents demo_config)"
  by (simp add: model_defs fixture_defs)

text \<open>
  Claim C2, as the code has it: the exclusion set has no effect. The callback gives the
  same result under every exclusion set, and an event inside the time window passes
  \<open>filterEvents\<close> whatever its title.
\<close>

theorem excludedEvents_never_read:
  "retrieveCallback ext (cfg\<lparr>excludedEvents := xs\<rparr>) now response body s
     = retrieveCallback ext cfg now response body s
   \<and> (e \<in> set vevents \<and> now \<le> ev_endDate e \<and> ev_startDate e \<le> future ext cfg now
        \<longrightarrow> e \<in> set (filterEvents ext cfg now vevents))"
proof -
  have "filteredEvents ext (cfg\<lparr>excludedEvents := xs\<rparr>) now allEvents = filteredEvents ext cfg now allEvents"
    for allEvents
    by (simp add: filteredEvents_def filterEvents_def future_def)
  then have "retrieveCallback ext (cfg\<lparr>excludedEvents := xs\<rparr>) now response body s
     = retrieveCallback ext cfg now response body s"
    by (simp add: retrieveCallback_def Let_def split: option.splits sum.splits)
  then show ?thesis
    by (simp add: filterEvents_def filterLoop_filter)
qed

text \<open>C2 as the code has it, at the excluded title: emptying the exclusion set changes nothing.\<close>

theorem excludedEvents_never_read_witness:
  "retrieveCallback (utc_with (Inr [timed ''Birthday'' (noon + day) (noon + 2 * day)]))
       (demo_config\<lparr>excludedEvents := []\<rparr>) noon (Some 200) (Some ''BEGIN:VCALENDAR'') CalendarFetcher
     = retrieveCallback (utc_with (Inr [timed ''Birthday'' (noon + day) (noon + 2 * day)]))
       demo_config noon (Some 200) (Some ''BEGIN:VCALENDAR'') CalendarFetcher
   \<and> timed ''Birthday'' (noon + day) (noon + 2 * day)
       \<in> set (filterEvents (utc_with (Inr [])) demo_config noon [timed ''Birthday'' (noon + day) (noon + 2 * day)])"
  using excludedEvents_never_read [where ext = "utc_with (Inr [timed ''Birthday'' (noon + day) (noon + 2 * day)])"
      and cfg = demo_config and xs = "[]" and now = noon and response = "Some 200"
      and body = "Some ''BEGIN:VCALENDAR''" and s = CalendarFetcher
      and e = "timed ''Birthday'' (noon + day) (noon + 2 * day)"
      and vevents = "[timed ''Birthday'' (noon + day) (noon + 2 * day)]"]
    excludedEvents_never_read [where ext = "utc_with (Inr [])"
      and cfg = demo_config and xs = "[]" and now = noon and response = "Some 200"
      and body = "Some ''BEGIN:VCALENDAR''" and s = CalendarFetcher
      and e = "timed ''Birthday'' (noon + day) (noon + 2 * day)"
      and vevents = "[timed ''Birthday'' (noon + day) (noon + 2 * day)]"]
  by (simp add: future_def fixture_defs)

subsection \<open>C3: the retry schedule\<close>

text \<open>
  Claim C3 says that after 3 consecutive failures the 4th attempt is scheduled after the
  full reload interval and the counter is back at 0. The guard of line 71 is
  \<open>failedRetrievals < 3\<close>, tested before the increment: the third failure still finds 2,
  counts to 3 and arms the 10 second timer. After three answers of status 503 to a new
  fetcher the pending delay is 10000, not the reload interval of 300000, and the counter
  is 3.
\<close>

theorem three_failures_short_retry:
  "reloadTimer (cycles (utc_with (Inr [])) demo_config [status 503, status 503, status 503] CalendarFetcher)
     = Some 10000
   \<and> reloadInterval demo_config = 300000
   \<and> failedRetrievals (cycles (utc_with (Inr [])) demo_config [status 503, status 503, status 503] CalendarFetcher)
     = 3"
  by (simp add: cycle_status_failure status_failure_def status_def CalendarFetcher_def demo_config_def)

text \<open>
  Claim C3, as the code has it: starting from a counter of 0, three consecutive answers
  with a status other than 200 leave the counter at 3 and the 4th attempt scheduled after
  10 seconds; a fourth such answer resets the counter to 0 and schedules the 5th attempt
  after the reload interval.
\<close>

theorem four_status_failures:
  assumes "failedRetrievals s = 0"
    and "status_failure a1" and "status_failure a2" and "status_failure a3" and "status_failure a4"
  shows "failedRetrievals (cycles ext cfg [a1, a2, a3] s) = 3
       \<and> reloadTimer (cycles ext cfg [a1, a2, a3] s) = Some 10000
       \<and> failedRetrievals (cycles ext cfg [a1, a2, a3, a4] s) = 0
       \<and> reloadTimer (cycles ext cfg [a1, a2, a3, a4] s) = Some (reloadInterval cfg)"
  using assms by (simp add: cycle_status_failure)

text \<open>C3 as the code has it, at four failing answers to a new fetcher.\<close>

theorem four_status_failures_witness:
  "failedRetrievals CalendarFetcher = 0
   \<and> status_failure (status 503) \<and> status_failure (status 404) \<and> status_failure (status 500)
   \<and> failedRetrievals (cycles (utc_with (Inr [])) demo_config [status 503, status 404, status 500] CalendarFetcher) = 3
   \<and> reloadTimer (cycles (utc_with (Inr [])) demo_config [status 503, status 404, status 500] CalendarFetcher)
       = Some 10000
   \<and> failedRetrievals
       (cycles (utc_with (Inr [])) demo_config [status 503, status 404, status 500, status 503] CalendarFetcher) = 0
   \<and> reloadTimer
       (cycles (utc_with (Inr [])) demo_config [status 503, status 404, status 500, status 503] CalendarFetcher)
       = Some 300000"
proof -
  have c: "failedRetrievals CalendarFetcher = 0"
    by (simp add: CalendarFetcher_def)
  have f: "status_failure (status 503)" "status_failure (status 404)" "status_failure (status 500)"
    by (simp_all add: status_failure_def status_def)
  show ?thesis
    using c f four_status_failures [OF c f(1) f(2) f(3) f(1), where ext = "utc_with (Inr [])" and cfg = demo_config]
    by (simp add: demo_config_def)
qed

subsection \<open>C4: the order of the published list\<close>

text \<open>
  Claim C4 says that the published list is sorted non-decreasing by \<open>startDate\<close>, ties
  in the order of the filtered input. Lines 86-90 mean to sort ("filter & sort events"),
  but the comparator of line 89 subtracts the two \<open>ICAL.Time\<close> objects themselves, not
  their dates: its result is \<open>NaN\<close> for every pair, and the sort leaves every list as it
  is. At a feed that lists an event five days ahead before two events of tomorrow, with
  \<open>maximumEntries = 2\<close>, the published list is the first two of the feed, the later
  event first.
\<close>

theorem feed_order_published:
  "array_sort compareFn xs = xs
   \<and> events (snd (retrieveCallback
         (utc_with (Inr [timed ''Late'' (noon + 5 * day) (noon + 6 * day),
                         timed ''First'' (noon + day) (noon + 2 * day),
                         timed ''Second'' (noon + day) (noon + 3 * day)]))
         demo_config noon (Some 200) (Some ''BEGIN:VCALENDAR'') CalendarFetcher))
     = [translate (timed ''Late'' (noon + 5 * day) (noon + 6 * day)),
        translate (timed ''First'' (noon + day) (noon + 2 * day))]
   \<and> \<not> sorted (map startDate (events (snd (retrieveCallback
         (utc_with (Inr [timed ''Late'' (noon + 5 * day) (noon + 6 * day),
                         timed ''First'' (noon + day) (noon + 2 * day),
                         timed ''Second'' (noon + day) (noon + 3 * day)]))
         demo_config noon (Some 200) (Some ''BEGIN:VCALENDAR'') CalendarFetcher))))"
proof -
  have "array_sort compareFn xs = xs"
    by (induction xs) (simp_all add: array_sort_def place_compareFn)
  then show ?thesis
    by (simp add: model_defs fixture_defs)
qed

subsection \<open>C5: the time window\<close>

text \<open>
  Claim C5: \<open>filterEvents\<close> drops every event whose end is strictly before \<open>now\<close> and
  every event whose start is strictly after the start of today plus
  \<open>maximumNumberOfDays\<close> days minus one second, and keeps all others: its result is
  the input restricted, in order, to the events with \<open>now \<le> endDate\<close> and
  \<open>startDate\<close> at most that horizon.
\<close>

theorem filterEvents_window:
  "filterEvents ext cfg now vevents =
     filter (\<lambda>e. now \<le> ev_endDate e
               \<and> ev_startDate e \<le> addDays ext (startOfDay ext now) (maximumNumberOfDays cfg) - 1000)
       vevents"
  by (simp add: filterEvents_def filterLoop_filter future_def)

text \<open>
  C5 at both boundaries, at noon with a horizon of 30 days: an event starting at the
  midnight of the horizon is dropped and one starting a second earlier kept; an event
  ending now is kept and one that ended a millisecond ago dropped.
\<close>

theorem filterEvents_window_witness:
  "filterEvents (utc_with (Inr [])) demo_config noon
     [timed ''Far'' (noon + 40 * day) (noon + 41 * day),
      timed ''Edge'' (noon - 12 * 3600000 + 30 * day) (noon + 30 * day),
      timed ''Last second'' (noon - 12 * 3600000 + 30 * day - 1000) (noon + 30 * day),
      timed ''Ending now'' (noon - day) noon,
      timed ''Over'' (noon - day) (noon - 1),
      timed ''Soon'' (noon + day) (noon + 2 * day)]
   = [timed ''Last second'' (noon - 12 * 3600000 + 30 * day - 1000) (noon + 30 * day),
      timed ''Ending now'' (noon - day) noon,
      timed ''Soon'' (noon + day) (noon + 2 * day)]"
  using filterEvents_window [where ext = "utc_with (Inr [])" and cfg = demo_config and now = noon
     and vevents = "[timed ''Far'' (noon + 40 * day) (noon + 41 * day),
      timed ''Edge'' (noon - 12 * 3600000 + 30 * day) (noon + 30 * day),
      timed ''Last second'' (noon - 12 * 3600000 + 30 * day - 1000) (noon + 30 * day),
      timed ''Ending now'' (noon - day) noon,
      timed ''Over'' (noon - day) (noon - 1),
      timed ''Soon'' (noon + day) (noon + 2 * day)]"]
  by (simp add: fixture_defs)

subsection \<open>C6: the length of the published list\<close>

text \<open>
  Claim C6: the published list never has more than \<open>maximumEntries\<close> entries, for the
  \<open>maximumEntries \<ge> 0\<close> of the configuration surface. Every callback keeps the bound, and
  it holds after any number of cycles of a new fetcher.
\<close>

theorem events_length_bounded:
  assumes "0 \<le> maximumEntries cfg"
  shows "(int (length (events s)) \<le> maximumEntries cfg \<longrightarrow>
            int (length (events (snd (retrieveCallback ext cfg now response body s)))) \<le> maximumEntries cfg)
       \<and> int (length (events (cycles ext cfg answers CalendarFetcher))) \<le> maximumEntries cfg"
proof -
  have step: "int (length (events (snd (retrieveCallback ext cfg t r b s')))) \<le> maximumEntries cfg"
    if "int (length (events s')) \<le> maximumEntries cfg" for t r b s'
    using callback_events [of ext cfg t r b s'] that length_filteredEvents [OF assms]
    by auto
  have "int (length (events (cycles ext cfg answers CalendarFetcher))) \<le> maximumEntries cfg"
    by (rule cycles_invariant) (simp_all add: CalendarFetcher_def assms cycle_def step fetchCalendar_def)
  with step show ?thesis by simp
qed

text \<open>C6 at a feed of three events in the window and \<open>maximumEntries = 2\<close>.\<close>

theorem events_length_bounded_witness:
  "0 \<le> maximumEntries demo_config
   \<and> int (length (events (cycles
        (utc_with (Inr [timed ''A'' (noon + day) (noon + 2 * day),
                        timed ''B'' (noon + 2 * day) (noon + 3 * day),
                        timed ''C'' (noon + 3 * day) (noon + 4 * day)]))
        demo_config [ok noon (Some ''BEGIN:VCALENDAR'')] CalendarFetcher))) \<le> maximumEntries demo_config
   \<and> length (events (cycles
        (utc_with (Inr [timed ''A'' (noon + day) (noon + 2 * day),
                        timed ''B'' (noon + 2 * day) (noon + 3 * day),
                        timed ''C'' (noon + 3 * day) (noon + 4 * day)]))
        demo_config [ok noon (Some ''BEGIN:VCALENDAR'')] CalendarFetcher)) = 2"
proof -
  have h: "0 \<le> maximumEntries demo_config" by (simp add: demo_config_def)
  show ?thesis
    using h events_length_bounded [OF h, where s = CalendarFetcher
        and ext = "utc_with (Inr [timed ''A'' (noon + day) (noon + 2 * day),
                        timed ''B'' (noon + 2 * day) (noon + 3 * day),
                        timed ''C'' (noon + 3 * day) (noon + 4 * day)])"
        and now = noon and response = "Some 200" and body = "Some ''BEGIN:VCALENDAR''"
        and answers = "[ok noon (Some ''BEGIN:VCALENDAR'')]"]
    by (simp add: model_defs fixture_defs)
qed

subsection \<open>C7 and C8: a status of 200 with a body that does not parse\<close>

text \<open>
  Claim C7 says that after any response with status 200 the counter is 0 and the next
  attempt is scheduled after the reload interval. At a \<open>null\<close> body the counter is reset,
  \<open>parseCalendar\<close> returns \<open>undefined\<close> and \<open>allEvents.length\<close> throws before line 119 is
  reached: no timer is pending after the cycle, and no later answer is ever processed.
  The same holds for a body on which the parser throws.
\<close>

theorem null_body_leaves_no_timer:
  "reloadTimer (snd (cycle ext cfg (ok now None) s)) = None
   \<and> cycles ext cfg (ok now None # answers) s = s\<lparr>reloadTimer := None, failedRetrievals := 0\<rparr>
   \<and> reloadTimer (snd (cycle (utc_with (Inl ParserError)) demo_config (ok noon (Some ''<html>''))
         (CalendarFetcher\<lparr>reloadTimer := Some 300000\<rparr>))) = None"
  by (simp add: cycle_def ok_def callback_null_body fetchCalendar_def callback_parser_throws
      utc_with_def)

text \<open>
  Claim C8 says that a parse failure, a \<open>null\<close> body included, counts as a result without
  events and not as an uncaught error, and that the cycle completes with the next fetch
  scheduled. The cycle on a \<open>null\<close> body ends in a \<open>TypeError\<close> with the timer cleared;
  a body that the parser rejects ends the callback in the parser's exception.
\<close>

theorem null_body_throws:
  "cycle ext cfg (ok now None) s = (Threw TypeError, s\<lparr>reloadTimer := None, failedRetrievals := 0\<rparr>)
   \<and> retrieveCallback (utc_with (Inl ParserError)) demo_config noon (Some 200) (Some ''garbage'') CalendarFetcher
       = (Threw ParserError, CalendarFetcher)"
  by (simp add: cycle_def ok_def callback_null_body fetchCalendar_def callback_parser_throws
      utc_with_def CalendarFetcher_def)

subsection \<open>C9: full-day detection\<close>

text \<open>
  Claim C9 says that \<open>isFullDayEvent\<close> is true exactly when the raw start is date-only or
  the event lasts 24 hours from exactly local midnight, and that the published
  \<open>fullDayEvent\<close> reflects it. Line 204 compares hours and minutes only: an event of 24
  hours starting 30 seconds after midnight is classified full-day, though it does not
  start exactly at midnight.
\<close>

theorem half_minute_past_midnight:
  "isFullDayEvent (utc_with (Inr []))
       \<lparr>ev_start = StartDate (noon + 12 * 3600000 + 30000), ev_end = Some (noon + 12 * 3600000 + 30000 + day)\<rparr>
     = Inr True
   \<and> \<not> fullDay_spec (utc_with (Inr []))
       \<lparr>ev_start = StartDate (noon + 12 * 3600000 + 30000), ev_end = Some (noon + 12 * 3600000 + 30000 + day)\<rparr>"
  by (simp add: isFullDayEvent_def fullDay_spec_def atLocalMidnight_def getHours_def
      getMinutes_def fixture_defs)

text \<open>
  Claim C9, as the code has it: \<open>isFullDayEvent\<close> is true for a start given as a string
  of eight characters, and for a start given as a date exactly when end minus start is 24
  hours and the start lies in the first minute of a local day (hour and minute are 0;
  seconds and milliseconds are not looked at).
\<close>

theorem isFullDayEvent_cases:
  "(ev_start event = StartString str \<and> length str = 8 \<longrightarrow> isFullDayEvent ext event = Inr True)
   \<and> (ev_start event = StartDate t \<longrightarrow>
        isFullDayEvent ext event =
          Inr ((case ev_end event of None \<Rightarrow> 0 | Some e \<Rightarrow> e) - t = 86400000
               \<and> (t + localTZA ext t) mod 86400000 < 60000))"
  using first_minute [of ext t] by (auto simp: isFullDayEvent_def)

text \<open>C9 as the code has it, at a date-only start, at a start of 00:00:30 and at a start of noon.\<close>

theorem isFullDayEvent_cases_witness:
  "isFullDayEvent (utc_with (Inr [])) \<lparr>ev_start = StartString ''20161103'', ev_end = None\<rparr> = Inr True
   \<and> isFullDayEvent (utc_with (Inr []))
       \<lparr>ev_start = StartDate (noon + 12 * 3600000 + 30000), ev_end = Some (noon + 12 * 3600000 + 30000 + day)\<rparr>
     = Inr True
   \<and> isFullDayEvent (utc_with (Inr []))
       \<lparr>ev_start = StartDate noon, ev_end = Some (noon + day)\<rparr> = Inr False"
  using isFullDayEvent_cases [where event = "\<lparr>ev_start = StartString ''20161103'', ev_end = None\<rparr>"
      and str = "''20161103''" and ext = "utc_with (Inr [])"]
    isFullDayEvent_cases [where ext = "utc_with (Inr [])" and t = "noon + 12 * 3600000 + 30000"
      and event = "\<lparr>ev_start = StartDate (noon + 12 * 3600000 + 30000),
                     ev_end = Some (noon + 12 * 3600000 + 30000 + day)\<rparr>"]
    isFullDayEvent_cases [where ext = "utc_with (Inr [])" and t = noon
      and event = "\<lparr>ev_start = StartDate noon, ev_end = Some (noon + day)\<rparr>"]
  by (simp add: fixture_defs)

subsection \<open>C10: the range of the failure counter\<close>

text \<open>
  Claim C10: \<open>failedRetrievals\<close> stays within 0 to 3. From a counter of at most 3, every
  outcome of the callback (the two that throw included) leaves a counter of at most 3; a
  response with status 200 leaves it at 0; and it is at most 3 after any number of cycles
  of a new fetcher.
\<close>

theorem failedRetrievals_bounded:
  "(failedRetrievals s \<le> 3 \<longrightarrow>
      failedRetrievals (snd (retrieveCallback ext cfg now response body s)) \<le> 3)
   \<and> failedRetrievals (snd (retrieveCallback ext cfg now (Some 200) body s)) = 0
   \<and> failedRetrievals (cycles ext cfg answers CalendarFetcher) \<le> 3"
proof -
  have "failedRetrievals (cycles ext cfg answers CalendarFetcher) \<le> 3"
    by (rule cycles_invariant)
      (simp_all add: CalendarFetcher_def cycle_def fetchCalendar_def callback_counter_bound)
  then show ?thesis
    by (simp add: callback_counter_bound callback_success_counter)
qed

text \<open>C10 at a counter of 3: a further failure resets it, and so does a success.\<close>

theorem failedRetrievals_bounded_witness:
  "failedRetrievals (CalendarFetcher\<lparr>failedRetrievals := 3\<rparr>) \<le> 3
   \<and> failedRetrievals (snd (retrieveCallback (utc_with (Inr [])) demo_config noon (Some 503) None
        (CalendarFetcher\<lparr>failedRetrievals := 3\<rparr>))) \<le> 3
   \<and> failedRetrievals (snd (retrieveCallback (utc_with (Inr [])) demo_config noon (Some 200) None
        (CalendarFetcher\<lparr>failedRetrievals := 3\<rparr>))) = 0"
  using failedRetrievals_bounded [where s = "CalendarFetcher\<lparr>failedRetrievals := 3\<rparr>"
      and ext = "utc_with (Inr [])" and cfg = demo_config and now = noon and response = "Some 503"
      and body = None and answers = "[]"]
  by (simp add: CalendarFetcher_def)

end
